theory Spec2Isabelle
  imports Main
begin

section \<open>Python values\<close>

text \<open>
  Strings are lists of characters, one \<^typ>\<open>char\<close> per code point below 256: the
  configuration values, the query clauses and the RFC 5322 date headers the
  code works on are ASCII. The exceptions that the modelled code can meet are
  values of \<open>error\<close>; all of them are subclasses of Python's \<open>Exception\<close>.
\<close>

datatype error =
    KeyError | ValueError | NoSectionError | NoOptionError | NameError
  | JSONDecodeError | HttpError | OSError | TypeError

definition is_space :: "char \<Rightarrow> bool" where
  \<comment> \<open>\<open>str.isspace\<close>, which is also what \<open>\\s\<close> matches and \<open>str.strip\<close> removes\<close>
  "is_space c = (of_char c \<in> set [9, 10, 11, 12, 13, 28, 29, 30, 31, 32, 133, 160 :: nat])"

definition is_digit :: "char \<Rightarrow> bool" where
  "is_digit c = (48 \<le> (of_char c :: nat) \<and> (of_char c :: nat) \<le> 57)"

definition digit_val :: "char \<Rightarrow> nat" where
  "digit_val c = of_char c - 48"

definition lower_char :: "char \<Rightarrow> char" where
  \<comment> \<open>\<open>str.lower\<close> on one code point below 256: A-Z and the Latin-1 capitals\<close>
  "lower_char c =
     (let n = (of_char c :: nat) in
      if (65 \<le> n \<and> n \<le> 90) \<or> (192 \<le> n \<and> n \<le> 222 \<and> n \<noteq> 215)
      then char_of (n + 32) else c)"

definition lower :: "string \<Rightarrow> string" where
  "lower s = map lower_char s"

definition strip :: "string \<Rightarrow> string" where
  "strip s = rev (dropWhile is_space (rev (dropWhile is_space s)))"

fun join :: "string \<Rightarrow> string list \<Rightarrow> string" where
  "join sep [] = []"
| "join sep [x] = x"
| "join sep (x # y # ys) = x @ sep @ join sep (y # ys)"

section \<open>Calendar dates\<close>

record date =
  year :: nat
  month :: nat
  day :: nat

definition isleap :: "nat \<Rightarrow> bool" where
  "isleap y = (y mod 4 = 0 \<and> (y mod 100 \<noteq> 0 \<or> y mod 400 = 0))"

definition mdays :: "nat list" where
  "mdays = [0, 31, 28, 31, 30, 31, 30, 31, 31, 30, 31, 30, 31]"

definition days_in_month :: "nat \<Rightarrow> nat \<Rightarrow> nat" where
  \<comment> \<open>\<open>calendar.monthrange(year, month)[1]\<close>, for a month in 1..12\<close>
  "days_in_month y m = mdays ! m + (if m = 2 \<and> isleap y then 1 else 0)"

definition digit_char :: "nat \<Rightarrow> char" where
  "digit_char n = ''0123456789'' ! (n mod 10)"

definition pad2 :: "nat \<Rightarrow> string" where
  "pad2 n = [digit_char (n div 10), digit_char n]"

definition pad4 :: "nat \<Rightarrow> string" where
  "pad4 n = [digit_char (n div 1000), digit_char (n div 100), digit_char (n div 10), digit_char n]"

definition strftime_ymd :: "date \<Rightarrow> string" where
  \<comment> \<open>\<open>d.strftime('%Y/%m/%d')\<close>, the year written with four digits (below the year 1000
      the C library decides about leading zeros; the model writes them)\<close>
  "strftime_ymd d = pad4 (year d) @ ''/'' @ pad2 (month d) @ ''/'' @ pad2 (day d)"

definition date_gt :: "date \<Rightarrow> date \<Rightarrow> bool" where
  \<comment> \<open>\<open>a > b\<close> on two datetimes that carry a date only\<close>
  "date_gt a b =
     (year a > year b \<or> (year a = year b \<and>
        (month a > month b \<or> (month a = month b \<and> day a > day b))))"

section \<open>Configuration and the cursor file\<close>

text \<open>
  The parsed \<open>config.ini\<close>: a section name gives the section, an option name
  gives the option's value as \<open>configparser\<close> returns it.
\<close>

type_synonym section_proxy = "string \<rightharpoonup> string"
type_synonym config = "string \<rightharpoonup> section_proxy"

text \<open>
  The file at \<open>tracker_path\<close>: absent, text that \<open>json.load\<close> rejects, or a JSON
  object whose \<open>last_timestamp\<close> entry is a string or is missing.
\<close>

datatype tracker_file = NoFile | BadFile | TrackerJson "string option"

definition getboolean :: "section_proxy \<Rightarrow> string \<Rightarrow> bool \<Rightarrow> error + bool" where
  "getboolean cfg opt fallback =
     (case cfg opt of
        None \<Rightarrow> Inr fallback
      | Some v \<Rightarrow>
          if lower v \<in> set [''1'', ''yes'', ''true'', ''on''] then Inr True
          else if lower v \<in> set [''0'', ''no'', ''false'', ''off''] then Inr False
          else Inl ValueError)"

definition load_last_timestamp :: "tracker_file \<Rightarrow> error + string option" where
  "load_last_timestamp t =
     (case t of NoFile \<Rightarrow> Inr None | BadFile \<Rightarrow> Inl JSONDecodeError | TrackerJson v \<Rightarrow> Inr v)"

definition save_last_timestamp :: "string \<Rightarrow> tracker_file" where
  "save_last_timestamp date_str = TrackerJson (Some date_str)"

section \<open>The two query builders\<close>

text \<open>
  The repository has two functions named \<open>build_query\<close>: the method of
  \<open>GmailUtility\<close> in Gmail_utility.py, which \<open>fetch_and_store_emails\<close> calls, and
  the function of gmail_utility_api_server.py. Both read the \<open>EMAIL\<close> section
  and the cursor file and return the query or raise. The second one calls
  \<open>logging.info\<close> where it defaults the month (line 45) and where it lets the
  cursor replace the after-date (line 51); its module imports \<open>datetime\<close> and
  \<open>calendar\<close> only, so either call raises \<open>NameError\<close>.
\<close>

definition clause :: "string \<Rightarrow> string option \<Rightarrow> string list" where
  \<comment> \<open>\<open>if cfg.get(k): q_parts.append(f"{prefix}{cfg.get(k)}")\<close>\<close>
  "clause prefix v = (case v of None \<Rightarrow> [] | Some s \<Rightarrow> if s = [] then [] else [prefix @ s])"

definition filter_parts :: "section_proxy \<Rightarrow> error + string list" where
  \<comment> \<open>sender, attachment and keyword clauses, the same lines in both builders\<close>
  "filter_parts cfg =
     (case getboolean cfg ''has_attachment'' False of
        Inl e \<Rightarrow> Inl e
      | Inr has_attachment \<Rightarrow>
          Inr (clause ''from:'' (cfg ''from_email'')
               @ (if has_attachment then [''has:attachment''] else [])
               @ clause [] (cfg ''keyword'')))"

definition build_query :: "config \<Rightarrow> tracker_file \<Rightarrow> bool \<Rightarrow> error + string" where
  \<comment> \<open>\<open>GmailUtility.build_query\<close> of Gmail_utility.py\<close>
  "build_query config tracker use_incremental =
     (case config ''EMAIL'' of
        None \<Rightarrow> Inl KeyError
      | Some cfg \<Rightarrow>
         (case filter_parts cfg of
            Inl e \<Rightarrow> Inl e
          | Inr parts \<Rightarrow>
              let q_parts = parts @ clause ''after:'' (cfg ''after_date'')
                                  @ clause ''before:'' (cfg ''before_date'')
              in if use_incremental then
                   (case load_last_timestamp tracker of
                      Inl e \<Rightarrow> Inl e
                    | Inr last_ts \<Rightarrow> Inr (join '' '' (q_parts @ clause ''after:'' last_ts)))
                 else Inr (join '' '' q_parts)))"

definition get_or_empty :: "section_proxy \<Rightarrow> string \<Rightarrow> string" where
  \<comment> \<open>\<open>cfg.get(k, '')\<close>\<close>
  "get_or_empty cfg k = (case cfg k of None \<Rightarrow> [] | Some v \<Rightarrow> v)"

definition first_day :: "date \<Rightarrow> date" where
  "first_day today = today\<lparr>day := 1\<rparr>"

definition last_day :: "date \<Rightarrow> date" where
  "last_day today = today\<lparr>day := days_in_month (year today) (month today)\<rparr>"

definition date_range :: "section_proxy \<Rightarrow> date \<Rightarrow> error + string \<times> string" where
  \<comment> \<open>lines 33-45 of gmail_utility_api_server.py: the default month is computed and
      then line 45 raises\<close>
  "date_range cfg today =
     (let after_date = strip (get_or_empty cfg ''after_date'');
          before_date = strip (get_or_empty cfg ''before_date'')
      in if after_date = [] \<or> before_date = []
         then (let after_date = strftime_ymd (first_day today);
                   before_date = strftime_ymd (last_day today)
               in Inl NameError)
         else Inr (after_date, before_date))"

definition build_query_api_server ::
  "config \<Rightarrow> tracker_file \<Rightarrow> date \<Rightarrow> bool \<Rightarrow> error + string" where
  \<comment> \<open>\<open>build_query\<close> of gmail_utility_api_server.py; \<open>today\<close> is \<open>datetime.today()\<close>\<close>
  "build_query_api_server config tracker today use_incremental =
     (case config ''EMAIL'' of
        None \<Rightarrow> Inl KeyError
      | Some cfg \<Rightarrow>
         (case filter_parts cfg of
            Inl e \<Rightarrow> Inl e
          | Inr parts \<Rightarrow>
             (case date_range cfg today of
                Inl e \<Rightarrow> Inl e
              | Inr (after_date, before_date) \<Rightarrow>
                  if use_incremental then
                    (case load_last_timestamp tracker of
                       Inl e \<Rightarrow> Inl e
                     | Inr last_ts \<Rightarrow>
                        (case last_ts of
                           None \<Rightarrow> Inr (join '' '' (parts @ [''after:'' @ after_date,
                                                            ''before:'' @ before_date]))
                         | Some ts \<Rightarrow>
                             if ts = []
                             then Inr (join '' '' (parts @ [''after:'' @ after_date,
                                                            ''before:'' @ before_date]))
                             else Inl NameError))
                  else Inr (join '' '' (parts @ [''after:'' @ after_date,
                                                 ''before:'' @ before_date])))))"

section \<open>Parsing the date header\<close>

text \<open>
  \<open>datetime.strptime(s, '%a, %d %b %Y')\<close> compiles the format to the regular expression
  \<^verbatim>\<open>(?P<a>mon|tue|wed|thu|fri|sat|sun),\s+(?P<d>3[0-1]|[1-2]\d|0[1-9]|[1-9]| [1-9])\s+(?P<b>jan|...|dec)\s+(?P<Y>\d\d\d\d)\<close>
  (case-insensitive, C locale), matches it at the start of \<open>s\<close>, and raises
  \<open>ValueError\<close> when there is no match, when the match does not reach the end of
  \<open>s\<close>, or when the fields are not a date. Each piece of the expression is a
  function from the text still to read to the list of its matches, in the
  order the backtracking matcher tries them; a match is the text consumed and
  the text left.
\<close>

definition a_weekday :: "string list" where
  "a_weekday = [''mon'', ''tue'', ''wed'', ''thu'', ''fri'', ''sat'', ''sun'']"

definition a_month :: "string list" where
  "a_month = [[], ''jan'', ''feb'', ''mar'', ''apr'', ''may'', ''jun'',
              ''jul'', ''aug'', ''sep'', ''oct'', ''nov'', ''dec'']"

definition re_names :: "string list \<Rightarrow> string \<Rightarrow> (string \<times> string) list" where
  \<comment> \<open>an alternation of names, compared without case\<close>
  "re_names names s =
     concat (map (\<lambda>n. if length n \<le> length s \<and> lower (take (length n) s) = n
                       then [(take (length n) s, drop (length n) s)] else []) names)"

definition re_comma :: "string \<Rightarrow> string list" where
  "re_comma s = (case s of c # r \<Rightarrow> if c = CHR '','' then [r] else [] | [] \<Rightarrow> [])"

fun re_spaces :: "string \<Rightarrow> string list" where
  \<comment> \<open>\<open>\\s+\<close>, greedy: the longest run first\<close>
  "re_spaces [] = []"
| "re_spaces (c # cs) = (if is_space c then re_spaces cs @ [cs] else [])"

definition re_day :: "string \<Rightarrow> (string \<times> string) list" where
  \<comment> \<open>\<open>3[0-1]|[1-2]\\d|0[1-9]|[1-9]| [1-9]\<close>\<close>
  "re_day s =
     (case s of
        c1 # c2 # r \<Rightarrow>
          (if c1 = CHR ''3'' \<and> (c2 = CHR ''0'' \<or> c2 = CHR ''1'') then [([c1, c2], r)] else [])
          @ (if (c1 = CHR ''1'' \<or> c1 = CHR ''2'') \<and> is_digit c2 then [([c1, c2], r)] else [])
          @ (if c1 = CHR ''0'' \<and> is_digit c2 \<and> c2 \<noteq> CHR ''0'' then [([c1, c2], r)] else [])
      | _ \<Rightarrow> [])
     @ (case s of
          c1 # r \<Rightarrow> if is_digit c1 \<and> c1 \<noteq> CHR ''0'' then [([c1], r)] else []
        | [] \<Rightarrow> [])
     @ (case s of
          c1 # c2 # r \<Rightarrow>
            if c1 = CHR '' '' \<and> is_digit c2 \<and> c2 \<noteq> CHR ''0'' then [([c1, c2], r)] else []
        | _ \<Rightarrow> [])"

definition re_year :: "string \<Rightarrow> (string \<times> string) list" where
  \<comment> \<open>\<open>\\d\\d\\d\\d\<close>\<close>
  "re_year s =
     (case s of
        c1 # c2 # c3 # c4 # r \<Rightarrow>
          if is_digit c1 \<and> is_digit c2 \<and> is_digit c3 \<and> is_digit c4
          then [([c1, c2, c3, c4], r)] else []
      | _ \<Rightarrow> [])"

definition re_match :: "string \<Rightarrow> ((string \<times> string \<times> string \<times> string) \<times> string) list" where
  \<comment> \<open>all matches of the whole expression at the start of \<open>s\<close>, the matcher's first one first\<close>
  "re_match s =
     concat (map (\<lambda>(a, r1).
     concat (map (\<lambda>r2.
     concat (map (\<lambda>r3.
     concat (map (\<lambda>(d, r4).
     concat (map (\<lambda>r5.
     concat (map (\<lambda>(b, r6).
     concat (map (\<lambda>r7.
             map (\<lambda>(y, r8). ((a, d, b, y), r8)) (re_year r7))
       (re_spaces r6)))
       (re_names (tl a_month) r5)))
       (re_spaces r4)))
       (re_day r3)))
       (re_spaces r2)))
       (re_comma r1)))
       (re_names a_weekday s))"

definition py_nat :: "string \<Rightarrow> nat" where
  \<comment> \<open>\<open>int(s)\<close> on a matched group: decimal digits after optional blanks\<close>
  "py_nat s = foldl (\<lambda>n c. 10 * n + digit_val c) 0 (dropWhile is_space s)"

fun index_of :: "string \<Rightarrow> string list \<Rightarrow> nat" where
  \<comment> \<open>\<open>list.index\<close>, used only on a name that is in the list\<close>
  "index_of x [] = 0"
| "index_of x (y # ys) = (if x = y then 0 else Suc (index_of x ys))"

definition strptime :: "string \<Rightarrow> error + date" where
  "strptime s =
     (case re_match s of
        [] \<Rightarrow> Inl ValueError
      | ((a, d, b, y), rest) # _ \<Rightarrow>
          if rest \<noteq> [] then Inl ValueError
          else
            let yr = py_nat y; mo = index_of (lower b) a_month; dy = py_nat d
            in if yr < 1 \<or> days_in_month yr mo < dy then Inl ValueError
               else Inr \<lparr>year = yr, month = mo, day = dy\<rparr>)"

section \<open>Messages, records and the files of a run\<close>

text \<open>
  A full message as the mail API returns it: its headers, and what
  \<open>get_email_body\<close> and \<open>download_attachments\<close> make of its payload (base64
  decoding, HTML stripping, attachment requests and file writes are the
  libraries' work; either call can raise). Every header carries a name and a
  value.
\<close>

record detail =
  headers :: "(string \<times> string) list"
  body_result :: "error + string"
  attachments_result :: "error + string list"

definition empty_detail :: detail where
  \<comment> \<open>the empty dict \<open>{}\<close>: no headers, empty body, no attachment parts\<close>
  "empty_detail = \<lparr>headers = [], body_result = Inr [], attachments_result = Inr []\<rparr>"

record email_record =
  Subject :: string
  From :: string
  Date :: string
  Body :: string
  Attachments :: "string list"

definition empty_record :: email_record where
  "empty_record = \<lparr>Subject = [], From = [], Date = [], Body = [], Attachments = []\<rparr>"

record stats_row =
  Job_Name :: string
  Start_Time :: int
  End_Time :: int
  Duration :: int
  Emails_Processed :: nat
  Errors_Encountered :: nat
  Output_File :: string
  Status :: string

text \<open>
  The state a run works on: the fields of the \<open>GmailUtility\<close> object and the three
  files it reads and rewrites. A file that does not exist is \<open>None\<close>. The
  output table is the rows \<open>to_csv\<close> wrote; the run only ever tests whether it
  exists. The statistics workbook is the rows pandas reads from it and
  writes to it. Clock readings are in microseconds.
\<close>

record state =
  config :: config
  output_csv :: string
  job_start_time :: int
  processed_count :: nat
  error_count :: nat
  tracker :: tracker_file
  output_table :: "email_record list option"
  job_stats :: "stats_row list option"

text \<open>
  What the world outside answers during one run: the mail API to a listing
  and to each full-content request, whether reading or writing the output
  file and the statistics workbook fails, and the clock.
\<close>

record env =
  api_list :: "string \<Rightarrow> int \<Rightarrow> error + string list"
  api_get :: "string \<Rightarrow> error + detail"
  table_io :: "error option"
  stats_io :: "error option"
  start_clock :: int
  end_clock :: int

definition init :: "env \<Rightarrow> state \<Rightarrow> state" where
  \<comment> \<open>\<open>GmailUtility.__init__\<close> on a configuration that loads and credentials that are valid\<close>
  "init env st = st\<lparr>job_start_time := start_clock env, processed_count := 0, error_count := 0\<rparr>"

section \<open>Listing, fetching and extracting\<close>

definition config_get :: "config \<Rightarrow> string \<Rightarrow> string \<Rightarrow> error + string" where
  "config_get c sec opt =
     (case c sec of
        None \<Rightarrow> Inl NoSectionError
      | Some s \<Rightarrow> (case s opt of None \<Rightarrow> Inl NoOptionError | Some v \<Rightarrow> Inr v))"

fun int_digits :: "nat \<Rightarrow> string \<Rightarrow> nat option" where
  \<comment> \<open>decimal digits, single underscores allowed between two digits\<close>
  "int_digits acc [] = Some acc"
| "int_digits acc [c] = (if is_digit c then Some (10 * acc + digit_val c) else None)"
| "int_digits acc (c # d # cs) =
     (if \<not> is_digit c then None
      else if d = CHR ''_'' then
        (if cs = [] then None else int_digits (10 * acc + digit_val c) cs)
      else int_digits (10 * acc + digit_val c) (d # cs))"

definition py_int :: "string \<Rightarrow> error + int" where
  \<comment> \<open>\<open>int(s)\<close>\<close>
  "py_int s =
     (let t = strip s;
          (neg, body) = (case t of
                           c # r \<Rightarrow> if c = CHR ''-'' then (True, r)
                                      else if c = CHR ''+'' then (False, r) else (False, t)
                         | [] \<Rightarrow> (False, t))
      in if body = [] then Inl ValueError
         else (case int_digits 0 body of
                 None \<Rightarrow> Inl ValueError
               | Some n \<Rightarrow> Inr (if neg then - int n else int n)))"

definition list_messages ::
  "env \<Rightarrow> state \<Rightarrow> string \<Rightarrow> int option \<Rightarrow> (error + string list) \<times> state" where
  "list_messages env st query max_results =
     (let from_config = (case config_get (config st) ''EMAIL'' ''max_results'' of
                           Inl e \<Rightarrow> Inl e | Inr v \<Rightarrow> py_int v);
          limit = (case max_results of
                     None \<Rightarrow> from_config
                   | Some m \<Rightarrow> if m = 0 then from_config else Inr m)
      in case limit of
           Inl e \<Rightarrow> (Inl e, st)
         | Inr m \<Rightarrow>
            (case api_list env query m of
               Inl e \<Rightarrow> (Inr [], st\<lparr>error_count := error_count st + 1\<rparr>)
             | Inr messages \<Rightarrow> (Inr messages, st)))"

definition get_message_detail :: "env \<Rightarrow> state \<Rightarrow> string \<Rightarrow> detail \<times> state" where
  "get_message_detail env st msg_id =
     (case api_get env msg_id of
        Inl e \<Rightarrow> (empty_detail, st\<lparr>error_count := error_count st + 1\<rparr>)
      | Inr d \<Rightarrow> (d, st))"

definition header_step :: "email_record \<Rightarrow> string \<times> string \<Rightarrow> email_record" where
  "header_step data h =
     (let name = lower (fst h) in
      if name = ''subject'' then data\<lparr>Subject := snd h\<rparr>
      else if name = ''from'' then data\<lparr>From := snd h\<rparr>
      else if name = ''date'' then data\<lparr>Date := snd h\<rparr>
      else data)"

definition extract_metadata :: "detail \<Rightarrow> error + email_record" where
  "extract_metadata message =
     (let data = foldl header_step empty_record (headers message) in
      case body_result message of
        Inl e \<Rightarrow> Inl e
      | Inr b \<Rightarrow>
         (case attachments_result message of
            Inl e \<Rightarrow> Inl e
          | Inr a \<Rightarrow> Inr (data\<lparr>Body := b, Attachments := a\<rparr>)))"

section \<open>The ingestion run\<close>

definition track_date :: "email_record \<Rightarrow> date option \<Rightarrow> date option" where
  \<comment> \<open>lines 260-265: the inner \<open>try\<close> of the loop\<close>
  "track_date meta latest_date =
     (case strptime (take 16 (Date meta)) of
        Inl e \<Rightarrow> latest_date
      | Inr msg_date \<Rightarrow>
         (case latest_date of
            None \<Rightarrow> Some msg_date
          | Some l \<Rightarrow> if date_gt msg_date l then Some msg_date else latest_date))"

fun process_messages ::
  "env \<Rightarrow> string list \<Rightarrow> email_record list \<Rightarrow> date option \<Rightarrow> state
     \<Rightarrow> error option \<times> email_record list \<times> date option \<times> state" where
  \<comment> \<open>lines 254-265: the loop over the listed messages\<close>
  "process_messages env [] records latest_date st = (None, records, latest_date, st)"
| "process_messages env (msg_id # rest) records latest_date st =
     (case get_message_detail env st msg_id of
        (d, st1) \<Rightarrow>
          (case extract_metadata d of
             Inl e \<Rightarrow> (Some e, records, latest_date, st1)
           | Inr meta \<Rightarrow>
               process_messages env rest (records @ [meta]) (track_date meta latest_date)
                 (st1\<lparr>processed_count := processed_count st1 + 1\<rparr>)))"

definition fetch_phase ::
  "env \<Rightarrow> state \<Rightarrow> error option \<times> email_record list \<times> date option \<times> state" where
  \<comment> \<open>lines 249-265\<close>
  "fetch_phase env st =
     (case build_query (config st) (tracker st) True of
        Inl e \<Rightarrow> (Some e, [], None, st)
      | Inr query \<Rightarrow>
         (case list_messages env st query None of
            (Inl e, st1) \<Rightarrow> (Some e, [], None, st1)
          | (Inr messages, st1) \<Rightarrow> process_messages env messages [] None st1))"

definition persist :: "env \<Rightarrow> email_record list \<Rightarrow> date option \<Rightarrow> state \<Rightarrow> error option \<times> state" where
  \<comment> \<open>lines 267-280. Every record holds a list in \<open>Attachments\<close>, which pandas cannot
      hash: once the output file exists, \<open>drop_duplicates\<close> of line 274 raises
      \<open>TypeError\<close> on the concatenated frame, before anything is written.\<close>
  "persist env records latest_date st =
     (if records = [] then (None, st)
      else
        (case table_io env of
           Some e \<Rightarrow> (Some e, st)
         | None \<Rightarrow>
            (case output_table st of
               Some df_existing \<Rightarrow> (Some TypeError, st)
             | None \<Rightarrow>
                let st1 = st\<lparr>output_table := Some records\<rparr>
                in (None, case latest_date of
                            None \<Rightarrow> st1
                          | Some d \<Rightarrow> st1\<lparr>tracker := save_last_timestamp (strftime_ymd d)\<rparr>))))"

definition try_body :: "env \<Rightarrow> state \<Rightarrow> error option \<times> state" where
  \<comment> \<open>the body of the outer \<open>try\<close>: the exception it ends with, if any, and the state it leaves\<close>
  "try_body env st =
     (case fetch_phase env st of
        (Some e, records, latest_date, st1) \<Rightarrow> (Some e, st1)
      | (None, records, latest_date, st1) \<Rightarrow> persist env records latest_date st1)"

definition stats_row_of :: "env \<Rightarrow> state \<Rightarrow> stats_row" where
  "stats_row_of env st =
     \<lparr>Job_Name = ''Gmail_Email_Ingestion'',
      Start_Time = job_start_time st,
      End_Time = end_clock env,
      Duration = end_clock env - job_start_time st,
      Emails_Processed = processed_count st,
      Errors_Encountered = error_count st,
      Output_File = output_csv st,
      Status = (if error_count st = 0 then ''Completed'' else ''Completed with errors'')\<rparr>"

definition log_job_stats :: "env \<Rightarrow> state \<Rightarrow> error option \<times> state" where
  "log_job_stats env st =
     (case stats_io env of
        Some e \<Rightarrow> (Some e, st)
      | None \<Rightarrow>
          let df_stats = (case job_stats st of None \<Rightarrow> [] | Some rows \<Rightarrow> rows)
          in (None, st\<lparr>job_stats := Some (df_stats @ [stats_row_of env st])\<rparr>))"

definition fetch_and_store_emails :: "env \<Rightarrow> state \<Rightarrow> error option \<times> state" where
  \<comment> \<open>\<open>except Exception\<close> swallows what the body raised; \<open>finally\<close> then logs the statistics.
      The result is the exception that leaves the method, if any, and the state.\<close>
  "fetch_and_store_emails env st = log_job_stats env (snd (try_body env st))"

definition run :: "env \<Rightarrow> state \<Rightarrow> error option \<times> state" where
  \<comment> \<open>one job: a new \<open>GmailUtility\<close> object, then \<open>fetch_and_store_emails\<close>\<close>
  "run env st = fetch_and_store_emails env (init env st)"

section \<open>Notions used to state the properties\<close>

text \<open>
  A date header in the compact RFC 5322 layout with a one-digit day:
  weekday name, comma, blank, one digit, blank, month name, blank, four-digit
  year, and at least one more character (the time of day follows the year),
  as in \<open>Wed, 3 Oct 2024 10:00:00 +0000\<close>.
\<close>

definition single_digit_day :: "string \<Rightarrow> bool" where
  "single_digit_day h =
     (16 \<le> length h \<and> lower (take 3 h) \<in> set a_weekday \<and> take 2 (drop 3 h) = '', ''
      \<and> is_digit (h ! 5) \<and> h ! 6 = CHR '' '' \<and> lower (take 3 (drop 7 h)) \<in> set (tl a_month)
      \<and> h ! 10 = CHR '' '' \<and> list_all is_digit (take 4 (drop 11 h)))"

text \<open>The date header of a record parses under the 16-character prefix pattern.\<close>

definition date_parses :: "email_record \<Rightarrow> bool" where
  "date_parses meta = (case strptime (take 16 (Date meta)) of Inl e \<Rightarrow> False | Inr d \<Rightarrow> True)"

text \<open>
  The value of \<open>latest_date\<close> after the loop has tracked the given records in
  order, starting from the given value.
\<close>

definition latest_of :: "email_record list \<Rightarrow> date option \<Rightarrow> date option" where
  "latest_of records latest_date = foldl (\<lambda>l meta. track_date meta l) latest_date records"

text \<open>
  The records a run has in \<open>records\<close> when its loop ends, and the exception,
  if any, that ended query building, listing or the loop.
\<close>

definition fetched :: "env \<Rightarrow> state \<Rightarrow> email_record list" where
  "fetched env st = fst (snd (fetch_phase env (init env st)))"

definition fetch_error :: "env \<Rightarrow> state \<Rightarrow> error option" where
  "fetch_error env st = fst (fetch_phase env (init env st))"

section \<open>Example inputs\<close>

text \<open>
  The preferences of the specification's example query, a configuration
  without any filter, and a small mailbox.
\<close>

definition ex_cfg :: section_proxy where
  "ex_cfg = [''from_email'' \<mapsto> ''a@b.com'', ''keyword'' \<mapsto> ''invoice'',
             ''after_date'' \<mapsto> ''2024/01/01'', ''before_date'' \<mapsto> ''2024/01/31'',
             ''max_results'' \<mapsto> ''10'']"

definition ex_config :: config where
  "ex_config = [''EMAIL'' \<mapsto> ex_cfg]"

definition bare_cfg :: section_proxy where
  "bare_cfg = [''max_results'' \<mapsto> ''10'']"

definition bare_config :: config where
  "bare_config = [''EMAIL'' \<mapsto> bare_cfg]"

definition ex_today :: date where
  "ex_today = \<lparr>year = 2024, month = 10, day = 15\<rparr>"

definition ex_state :: "config \<Rightarrow> tracker_file \<Rightarrow> email_record list option \<Rightarrow> state" where
  "ex_state c t tbl =
     \<lparr>config = c, output_csv = ''data/emails.csv'', job_start_time = 0,
      processed_count = 0, error_count = 0, tracker = t, output_table = tbl,
      job_stats = None\<rparr>"

definition mail :: "string \<Rightarrow> string \<Rightarrow> detail" where
  "mail subject date_header =
     \<lparr>headers = [(''Subject'', subject), (''From'', ''a@b.com''), (''Date'', date_header)],
      body_result = Inr ''hello'', attachments_result = Inr []\<rparr>"

definition mail_record :: "string \<Rightarrow> string \<Rightarrow> email_record" where
  "mail_record subject date_header =
     \<lparr>Subject = subject, From = ''a@b.com'', Date = date_header, Body = ''hello'',
      Attachments = []\<rparr>"

definition ex_env :: "(error + string list) \<Rightarrow> (string \<Rightarrow> error + detail) \<Rightarrow> env" where
  "ex_env listing get =
     \<lparr>api_list = (\<lambda>query limit. listing), api_get = get, table_io = None, stats_io = None,
      start_clock = 100, end_clock = 160\<rparr>"

definition mailbox :: "string \<Rightarrow> error + detail" where
  \<comment> \<open>four messages; the full content of any other identifier cannot be fetched\<close>
  "mailbox msg_id =
     (if msg_id = ''m1'' then Inr (mail ''new'' ''Tue, 15 Oct 2024 09:30:00 +0000'')
      else if msg_id = ''m2'' then Inr (mail ''old'' ''Mon, 01 Jan 2024 10:00:00 +0000'')
      else if msg_id = ''m3'' then Inr (mail ''short'' ''Thu, 3 Oct 2024 10:00:00 +0000'')
      else if msg_id = ''m4'' then Inr (mail ''padded'' ''Thu,  3 Oct 2024 10:00:00 +0000'')
      else Inl HttpError)"

section \<open>Properties of the query builders\<close>

lemma build_query_eq:
  assumes "conf ''EMAIL'' = Some cfg" and "filter_parts cfg = Inr parts"
    and "use_incremental \<longrightarrow> load_last_timestamp trk = Inr last_ts"
  shows "build_query conf trk use_incremental =
           Inr (join '' '' (parts @ clause ''after:'' (cfg ''after_date'')
                                  @ clause ''before:'' (cfg ''before_date'')
                                  @ (if use_incremental then clause ''after:'' last_ts else [])))"
  using assms by (auto simp: build_query_def)

lemma filter_parts_ex_cfg: "filter_parts ex_cfg = Inr [''from:a@b.com'', ''invoice'']"
  by (simp add: filter_parts_def getboolean_def clause_def ex_cfg_def)

lemma filter_parts_bare_cfg: "filter_parts bare_cfg = Inr []"
  by (simp add: filter_parts_def getboolean_def clause_def bare_cfg_def)

lemma date_range_default:
  "strip (get_or_empty cfg ''after_date'') = [] \<or> strip (get_or_empty cfg ''before_date'') = []
   \<Longrightarrow> date_range cfg today = Inl NameError"
  by (auto simp: date_range_def Let_def)

lemma date_range_explicit:
  "strip (get_or_empty cfg ''after_date'') \<noteq> [] \<Longrightarrow> strip (get_or_empty cfg ''before_date'') \<noteq> []
   \<Longrightarrow> date_range cfg today
       = Inr (strip (get_or_empty cfg ''after_date''), strip (get_or_empty cfg ''before_date''))"
  by (simp add: date_range_def Let_def)

lemma build_query_api_server_default_month:
  assumes "conf ''EMAIL'' = Some cfg" and "filter_parts cfg = Inr parts"
    and "strip (get_or_empty cfg ''after_date'') = []
         \<or> strip (get_or_empty cfg ''before_date'') = []"
  shows "build_query_api_server conf trk today use_incremental = Inl NameError"
  using assms(1,2) date_range_default[OF assms(3), of today]
  by (simp add: build_query_api_server_def)

lemma build_query_api_server_cursor:
  assumes "conf ''EMAIL'' = Some cfg" and "filter_parts cfg = Inr parts"
    and "load_last_timestamp trk = Inr (Some ts)" and "ts \<noteq> []"
  shows "build_query_api_server conf trk today True = Inl NameError"
  using assms
  by (cases "date_range cfg today")
     (auto simp: build_query_api_server_def date_range_def Let_def split: if_splits)

lemma build_query_api_server_explicit:
  assumes "conf ''EMAIL'' = Some cfg" and "filter_parts cfg = Inr parts"
    and "strip (get_or_empty cfg ''after_date'') \<noteq> []"
    and "strip (get_or_empty cfg ''before_date'') \<noteq> []"
    and "use_incremental \<longrightarrow>
           load_last_timestamp trk = Inr None \<or> load_last_timestamp trk = Inr (Some [])"
  shows "build_query_api_server conf trk today use_incremental =
           Inr (join '' '' (parts @ [''after:'' @ strip (get_or_empty cfg ''after_date''),
                                     ''before:'' @ strip (get_or_empty cfg ''before_date'')]))"
  using assms(1,2,5) date_range_explicit[OF assms(3,4), of today]
  by (auto simp: build_query_api_server_def)

lemma build_query_api_server_spec_example:
  "build_query_api_server ex_config NoFile ex_today False
   = Inr ''from:a@b.com invoice after:2024/01/01 before:2024/01/31''"
  by code_simp

lemma build_query_api_server_no_dates_example:
  "build_query_api_server bare_config NoFile ex_today False = Inl NameError"
  by code_simp

text \<open>
  C1 (as the code has it). With \<open>use_incremental\<close> true and a non-empty stored
  cursor, \<open>GmailUtility.build_query\<close>, the builder the ingestion run calls, keeps
  the configured after- and before-clauses and appends the cursor's
  after-clause behind them: the cursor is added alongside a configured
  \<open>after_date\<close> and does not replace it.
\<close>

theorem cursor_after_clause:
  assumes "conf ''EMAIL'' = Some cfg" and "filter_parts cfg = Inr parts"
    and "load_last_timestamp trk = Inr (Some ts)" and "ts \<noteq> []"
  shows "build_query conf trk True =
           Inr (join '' '' (parts @ clause ''after:'' (cfg ''after_date'')
                                  @ clause ''before:'' (cfg ''before_date'')
                                  @ [''after:'' @ ts]))"
  using assms build_query_eq[of conf cfg parts True trk "Some ts"]
  by (simp add: clause_def)

theorem cursor_after_clause_witness:
  "build_query ex_config (TrackerJson (Some ''2024/02/01'')) True =
     Inr ''from:a@b.com invoice after:2024/01/01 before:2024/01/31 after:2024/02/01''"
proof -
  have h1: "ex_config ''EMAIL'' = Some ex_cfg"
    by (simp add: ex_config_def)
  have h3: "load_last_timestamp (TrackerJson (Some ''2024/02/01'')) = Inr (Some ''2024/02/01'')"
    by (simp add: load_last_timestamp_def)
  have h4: "''2024/02/01'' \<noteq> []"
    by simp
  have c: "clause ''after:'' (ex_cfg ''after_date'') = [''after:2024/01/01'']"
          "clause ''before:'' (ex_cfg ''before_date'') = [''before:2024/01/31'']"
    by (simp_all add: clause_def ex_cfg_def)
  from h1 h3 h4 filter_parts_ex_cfg
    cursor_after_clause[of ex_config ex_cfg "[''from:a@b.com'', ''invoice'']"
      "TrackerJson (Some ''2024/02/01'')" "''2024/02/01''"]
  show ?thesis
    by (simp add: c)
qed

theorem cursor_added_alongside_counterexample:
  "build_query [''EMAIL'' \<mapsto> [''after_date'' \<mapsto> ''2024/01/01'']]
     (TrackerJson (Some ''2024/02/01'')) True
   = Inr ''after:2024/01/01 after:2024/02/01''"
  by (simp add: build_query_def filter_parts_def getboolean_def clause_def
      load_last_timestamp_def)

text \<open>
  C4 (as the code has it). \<open>GmailUtility.build_query\<close> supplies no default
  month. When \<open>after_date\<close> is not set its query has no after-clause from the
  configuration, and when \<open>before_date\<close> is not set it has no before-clause:
  the query is the sender, attachment and keyword clauses, the clause of the
  date that is configured, if any, and the cursor's after-clause when
  \<open>use_incremental\<close> is true and a non-empty cursor is stored.
\<close>

theorem no_default_month:
  assumes "conf ''EMAIL'' = Some cfg" and "filter_parts cfg = Inr parts"
    and "use_incremental \<longrightarrow> load_last_timestamp trk = Inr last_ts"
  shows "(cfg ''after_date'' = None \<or> cfg ''after_date'' = Some [] \<longrightarrow>
            build_query conf trk use_incremental =
              Inr (join '' '' (parts @ clause ''before:'' (cfg ''before_date'')
                     @ (if use_incremental then clause ''after:'' last_ts else []))))
         \<and> (cfg ''before_date'' = None \<or> cfg ''before_date'' = Some [] \<longrightarrow>
            build_query conf trk use_incremental =
              Inr (join '' '' (parts @ clause ''after:'' (cfg ''after_date'')
                     @ (if use_incremental then clause ''after:'' last_ts else []))))"
  using build_query_eq[of conf cfg parts use_incremental trk last_ts] assms
  by (auto simp: clause_def)

theorem no_default_month_witness:
  "build_query [''EMAIL'' \<mapsto> [''keyword'' \<mapsto> ''invoice'', ''before_date'' \<mapsto> ''2024/01/31'']]
     NoFile True
   = Inr ''invoice before:2024/01/31''"
proof -
  let ?cfg = "[''keyword'' \<mapsto> ''invoice'', ''before_date'' \<mapsto> ''2024/01/31'']"
  let ?conf = "[''EMAIL'' \<mapsto> ?cfg]"
  have h1: "?conf ''EMAIL'' = Some ?cfg"
    by simp
  have h2: "filter_parts ?cfg = Inr [''invoice'']"
    by (simp add: filter_parts_def getboolean_def clause_def)
  have h3: "True \<longrightarrow> load_last_timestamp NoFile = Inr None"
    by (simp add: load_last_timestamp_def)
  have h4: "?cfg ''after_date'' = None \<or> ?cfg ''after_date'' = Some []"
    by simp
  from h1 h2 h3 h4 no_default_month[of ?conf ?cfg "[''invoice'']" True NoFile None]
  show ?thesis
    by (simp add: clause_def)
qed

theorem no_default_month_counterexample:
  "build_query [''EMAIL'' \<mapsto> [''from_email'' \<mapsto> ''a@b.com'']] NoFile True
   = Inr ''from:a@b.com''"
  by (simp add: build_query_def filter_parts_def getboolean_def clause_def
      load_last_timestamp_def)

text \<open>
  C5 (as the code has it). With no sender, an attachment flag that is absent
  or false, no keyword, no explicit dates and no stored cursor,
  \<open>GmailUtility.build_query\<close> returns the empty string.
\<close>

theorem no_preferences_query:
  assumes "conf ''EMAIL'' = Some cfg"
    and "cfg ''from_email'' = None \<or> cfg ''from_email'' = Some []"
    and "getboolean cfg ''has_attachment'' False = Inr False"
    and "cfg ''keyword'' = None \<or> cfg ''keyword'' = Some []"
    and "cfg ''after_date'' = None \<or> cfg ''after_date'' = Some []"
    and "cfg ''before_date'' = None \<or> cfg ''before_date'' = Some []"
    and "load_last_timestamp trk = Inr None \<or> load_last_timestamp trk = Inr (Some [])"
  shows "build_query conf trk use_incremental = Inr []"
proof -
  have fp: "filter_parts cfg = Inr []"
    using assms(2,3,4) by (auto simp: filter_parts_def clause_def)
  from assms(7) obtain last_ts where
    ld: "load_last_timestamp trk = Inr last_ts" and lt: "last_ts = None \<or> last_ts = Some []"
    by auto
  show ?thesis
    using assms(1,5,6) fp ld lt build_query_eq[of conf cfg "[]" use_incremental trk last_ts]
    by (auto simp: clause_def)
qed

theorem no_preferences_query_witness:
  "build_query [''EMAIL'' \<mapsto> [''has_attachment'' \<mapsto> ''False'', ''keyword'' \<mapsto> []]]
     (TrackerJson None) True = Inr []"
proof -
  let ?cfg = "[''has_attachment'' \<mapsto> ''False'', ''keyword'' \<mapsto> []]"
  let ?conf = "[''EMAIL'' \<mapsto> ?cfg]"
  have h1: "?conf ''EMAIL'' = Some ?cfg"
    by simp
  have h3: "getboolean ?cfg ''has_attachment'' False = Inr False"
    by code_simp
  have h7: "load_last_timestamp (TrackerJson None) = Inr None
            \<or> load_last_timestamp (TrackerJson None) = Inr (Some [])"
    by (simp add: load_last_timestamp_def)
  from h1 h3 h7 no_preferences_query[of ?conf ?cfg "TrackerJson None" True]
  show ?thesis
    by simp
qed

theorem empty_query_counterexample:
  "build_query [''EMAIL'' \<mapsto> Map.empty] NoFile True = Inr []"
  by (simp add: build_query_def filter_parts_def getboolean_def clause_def
      load_last_timestamp_def)

section \<open>Properties of the date parser\<close>

lemma re_names_suffix: "(m, r) \<in> set (re_names ns s) \<Longrightarrow> s = m @ r"
  by (auto simp: re_names_def split: if_splits)

lemma re_comma_suffix: "r \<in> set (re_comma s) \<Longrightarrow> s = CHR '','' # r"
  by (auto simp: re_comma_def split: list.splits if_splits)

lemma re_spaces_suffix: "r \<in> set (re_spaces s) \<Longrightarrow> \<exists>ws w. s = ws @ [w] @ r \<and> is_space w"
proof (induction s)
  case Nil
  then show ?case by simp
next
  case (Cons c cs)
  show ?case
  proof (cases "r = cs")
    case True
    with Cons.prems have "is_space c" by (auto split: if_splits)
    with True show ?thesis by (intro exI[of _ "[]"] exI[of _ c]) simp
  next
    case False
    with Cons.prems have "r \<in> set (re_spaces cs)" by (auto split: if_splits)
    from Cons.IH[OF this] obtain ws w where "cs = ws @ [w] @ r" "is_space w" by blast
    then show ?thesis by (intro exI[of _ "c # ws"] exI[of _ w]) simp
  qed
qed

lemma re_day_suffix: "(d, r) \<in> set (re_day s) \<Longrightarrow> s = d @ r"
  by (auto simp: re_day_def split: list.splits if_splits)

lemma re_year_suffix: "(y, r) \<in> set (re_year s) \<Longrightarrow> s = y @ r \<and> length y = 4"
  by (auto simp: re_year_def split: list.splits if_splits)

lemma re_match_year:
  assumes "((a, d, b, y), r) \<in> set (re_match s)"
  shows "\<exists>pre w. s = pre @ [w] @ y @ r \<and> is_space w \<and> length y = 4"
proof -
  from assms obtain r1 r2 r3 r4 r5 r6 r7 where
    1: "(a, r1) \<in> set (re_names a_weekday s)" and 2: "r2 \<in> set (re_comma r1)" and
    3: "r3 \<in> set (re_spaces r2)" and 4: "(d, r4) \<in> set (re_day r3)" and
    5: "r5 \<in> set (re_spaces r4)" and 6: "(b, r6) \<in> set (re_names (tl a_month) r5)" and
    7: "r7 \<in> set (re_spaces r6)" and 8: "(y, r) \<in> set (re_year r7)"
    unfolding re_match_def by auto
  from re_spaces_suffix[OF 3] obtain p3 where p3: "r2 = p3 @ r3" by auto
  from re_spaces_suffix[OF 5] obtain p5 where p5: "r4 = p5 @ r5" by auto
  from re_spaces_suffix[OF 7] obtain ws w where w: "r6 = ws @ [w] @ r7" "is_space w" by auto
  from re_year_suffix[OF 8] have y: "r7 = y @ r" "length y = 4" by auto
  have "s = (a @ CHR '','' # p3 @ d @ p5 @ b @ ws) @ [w] @ y @ r"
    using re_names_suffix[OF 1] re_comma_suffix[OF 2] re_day_suffix[OF 4]
      re_names_suffix[OF 6] p3 p5 w(1) y(1) by simp
  with w(2) y(2) show ?thesis by blast
qed

lemma strptime_error: "strptime s = Inl e \<Longrightarrow> e = ValueError"
  by (auto simp: strptime_def Let_def split: list.splits if_splits)

lemma strptime_space_before_year:
  assumes "strptime s = Inr dt"
  shows "5 \<le> length s \<and> is_space (s ! (length s - 5))"
proof -
  from assms obtain a d b y rest where m: "re_match s = ((a, d, b, y), []) # rest"
    by (auto simp: strptime_def Let_def split: list.splits if_splits)
  then have "((a, d, b, y), []) \<in> set (re_match s)" by simp
  from re_match_year[OF this] obtain pre w where
    s: "s = pre @ [w] @ y" and w: "is_space w" and y: "length y = 4" by auto
  from s y have "length s = length pre + 5" by simp
  moreover from s y have "s ! length pre = w" by (simp add: nth_append)
  ultimately show ?thesis using w by simp
qed

lemma digit_not_space: "is_digit c \<Longrightarrow> \<not> is_space c"
  by (auto simp: is_digit_def is_space_def)

lemma single_digit_day_fails:
  assumes "single_digit_day h"
  shows "strptime (take 16 h) = Inl ValueError"
proof (cases "strptime (take 16 h)")
  case (Inl e)
  then show ?thesis using strptime_error by blast
next
  case (Inr dt)
  from assms have len: "16 \<le> length h" and all: "list_all is_digit (take 4 (drop 11 h))"
    by (simp_all add: single_digit_day_def)
  from len have "0 < length (take 4 (drop 11 h))" and "take 4 (drop 11 h) ! 0 = h ! 11"
    by simp_all
  with all have dig: "is_digit (h ! 11)"
    by (metis list_all_length)
  from strptime_space_before_year[OF Inr] len have "is_space (h ! 11)" by simp
  with dig digit_not_space show ?thesis by blast
qed

section \<open>Properties of date tracking\<close>

lemma date_gt_irrefl: "\<not> date_gt d d"
  by (simp add: date_gt_def)

lemma date_gt_trans: "date_gt a b \<Longrightarrow> date_gt b c \<Longrightarrow> date_gt a c"
  by (auto simp: date_gt_def)

lemma track_date_unparsed: "\<not> date_parses meta \<Longrightarrow> track_date meta l = l"
  by (auto simp: track_date_def date_parses_def split: sum.splits)

lemma latest_of_Nil: "latest_of [] l = l"
  by (simp add: latest_of_def)

lemma latest_of_Cons: "latest_of (r # rs) l = latest_of rs (track_date r l)"
  by (simp add: latest_of_def)

lemma latest_of_append: "latest_of (xs @ ys) l = latest_of ys (latest_of xs l)"
  by (simp add: latest_of_def)

lemma latest_of_unparsed: "\<forall>r\<in>set rs. \<not> date_parses r \<Longrightarrow> latest_of rs l = l"
  by (induction rs arbitrary: l) (simp_all add: latest_of_Nil latest_of_Cons track_date_unparsed)

lemma latest_of_filter: "latest_of rs l = latest_of (filter date_parses rs) l"
  by (induction rs arbitrary: l) (simp_all add: latest_of_Nil latest_of_Cons track_date_unparsed)

lemma track_date_cases:
  "track_date r l = l \<and> (\<forall>d. strptime (take 16 (Date r)) = Inr d \<longrightarrow> (\<exists>m. l = Some m \<and> \<not> date_gt d m))
   \<or> (\<exists>d. strptime (take 16 (Date r)) = Inr d \<and> track_date r l = Some d
          \<and> (\<forall>m. l = Some m \<longrightarrow> date_gt d m))"
  by (auto simp: track_date_def split: sum.splits option.splits)

lemma latest_of_max:
  assumes "latest_of rs l = Some d"
  shows "(l = Some d \<or> (\<exists>r\<in>set rs. strptime (take 16 (Date r)) = Inr d))
         \<and> (\<forall>r\<in>set rs. \<forall>d'. strptime (take 16 (Date r)) = Inr d' \<longrightarrow> \<not> date_gt d' d)
         \<and> (\<forall>m. l = Some m \<longrightarrow> \<not> date_gt m d)"
  using assms
proof (induction rs arbitrary: l)
  case Nil
  then show ?case by (simp add: latest_of_Nil date_gt_irrefl)
next
  case (Cons r rs)
  from Cons.prems have *: "latest_of rs (track_date r l) = Some d"
    by (simp add: latest_of_Cons)
  note IH = Cons.IH[OF *]
  from track_date_cases[of r l] show ?case
  proof (elim disjE conjE exE)
    assume same: "track_date r l = l"
      and old: "\<forall>d. strptime (take 16 (Date r)) = Inr d \<longrightarrow> (\<exists>m. l = Some m \<and> \<not> date_gt d m)"
    from IH same have a: "l = Some d \<or> (\<exists>r\<in>set rs. strptime (take 16 (Date r)) = Inr d)"
      and b: "\<forall>r\<in>set rs. \<forall>d'. strptime (take 16 (Date r)) = Inr d' \<longrightarrow> \<not> date_gt d' d"
      and c: "\<forall>m. l = Some m \<longrightarrow> \<not> date_gt m d" by simp_all
    have "\<not> date_gt d' d" if "strptime (take 16 (Date r)) = Inr d'" for d'
    proof
      assume gt: "date_gt d' d"
      from old that obtain m where m: "l = Some m" "\<not> date_gt d' m" by blast
      from c m have nd: "\<not> date_gt m d" by simp
      from gt nd m(2) show False by (auto simp: date_gt_def)
    qed
    with a b c show ?thesis by auto
  next
    fix dr
    assume p: "strptime (take 16 (Date r)) = Inr dr" and t: "track_date r l = Some dr"
      and newer: "\<forall>m. l = Some m \<longrightarrow> date_gt dr m"
    from IH t have a: "dr = d \<or> (\<exists>r\<in>set rs. strptime (take 16 (Date r)) = Inr d)"
      and b: "\<forall>r\<in>set rs. \<forall>d'. strptime (take 16 (Date r)) = Inr d' \<longrightarrow> \<not> date_gt d' d"
      and c: "\<not> date_gt dr d" by auto
    have "\<not> date_gt m d" if "l = Some m" for m
    proof
      assume "date_gt m d"
      with newer that have "date_gt dr d" using date_gt_trans by blast
      with c show False by simp
    qed
    with a b c p show ?thesis by auto
  qed
qed

lemma latest_of_None: "latest_of rs l = None \<Longrightarrow> l = None \<and> (\<forall>r\<in>set rs. \<not> date_parses r)"
proof (induction rs arbitrary: l)
  case Nil
  then show ?case by (simp add: latest_of_Nil)
next
  case (Cons r rs)
  from Cons.prems have "latest_of rs (track_date r l) = None" by (simp add: latest_of_Cons)
  from Cons.IH[OF this] have "track_date r l = None" and rest: "\<forall>r\<in>set rs. \<not> date_parses r"
    by simp_all
  then show ?case
    by (auto simp: track_date_def date_parses_def split: sum.splits option.splits if_splits)
qed

lemma latest_of_remove:
  "\<not> date_parses r \<Longrightarrow> latest_of (filter (\<lambda>x. x \<noteq> r) rs) l = latest_of rs l"
  by (induction rs arbitrary: l) (auto simp: latest_of_Nil latest_of_Cons track_date_unparsed)

section \<open>Properties of the loop, the persistence step and the run\<close>

lemma extract_metadata_empty: "extract_metadata empty_detail = Inr empty_record"
  by (simp add: extract_metadata_def empty_detail_def empty_record_def)

lemma strptime_Nil: "strptime [] = Inl ValueError"
  by (simp add: strptime_def re_match_def re_names_def a_weekday_def)

lemma track_date_empty_record: "track_date empty_record l = l"
  by (simp add: track_date_def empty_record_def strptime_Nil)

lemma get_message_detail_frame:
  "get_message_detail env st m = (d, st1) \<Longrightarrow>
     tracker st1 = tracker st \<and> output_table st1 = output_table st \<and> job_stats st1 = job_stats st
     \<and> config st1 = config st \<and> processed_count st1 = processed_count st
     \<and> job_start_time st1 = job_start_time st \<and> output_csv st1 = output_csv st"
  by (auto simp: get_message_detail_def split: sum.splits)

lemma process_messages_props:
  "process_messages env ms recs latest st = (exc, recs', latest', st') \<Longrightarrow>
     \<exists>new. recs' = recs @ new \<and> latest' = latest_of new latest
       \<and> (exc = None \<longrightarrow> length new = length ms)
       \<and> tracker st' = tracker st \<and> output_table st' = output_table st
       \<and> job_stats st' = job_stats st \<and> config st' = config st
       \<and> job_start_time st' = job_start_time st \<and> output_csv st' = output_csv st
       \<and> processed_count st' = processed_count st + length new"
proof (induction ms arbitrary: recs latest st)
  case Nil
  then show ?case by (auto simp: latest_of_Nil)
next
  case (Cons m ms)
  obtain d st1 where g: "get_message_detail env st m = (d, st1)" by fastforce
  note fr = get_message_detail_frame[OF g]
  show ?case
  proof (cases "extract_metadata d")
    case (Inl e)
    with Cons.prems g show ?thesis using fr by (auto simp: latest_of_Nil)
  next
    case (Inr meta)
    with Cons.prems g have
      "process_messages env ms (recs @ [meta]) (track_date meta latest)
         (st1\<lparr>processed_count := processed_count st1 + 1\<rparr>) = (exc, recs', latest', st')"
      by simp
    from Cons.IH[OF this] obtain new where
      n: "recs' = (recs @ [meta]) @ new" "latest' = latest_of new (track_date meta latest)"
        "exc = None \<longrightarrow> length new = length ms"
        "tracker st' = tracker st1" "output_table st' = output_table st1"
        "job_stats st' = job_stats st1" "config st' = config st1"
        "job_start_time st' = job_start_time st1" "output_csv st' = output_csv st1"
        "processed_count st' = processed_count st1 + 1 + length new"
      by auto
    show ?thesis
      using n fr by (intro exI[of _ "meta # new"]) (simp add: latest_of_Cons)
  qed
qed

lemma list_messages_frame:
  "list_messages env st q mr = (res, st1) \<Longrightarrow>
     tracker st1 = tracker st \<and> output_table st1 = output_table st \<and> job_stats st1 = job_stats st
     \<and> config st1 = config st \<and> processed_count st1 = processed_count st
     \<and> job_start_time st1 = job_start_time st \<and> output_csv st1 = output_csv st"
  by (auto simp: list_messages_def Let_def split: sum.splits option.splits if_splits)

lemma fetch_phase_props:
  assumes "fetch_phase env st = (exc, recs, latest, st1)"
  shows "latest = latest_of recs None \<and> tracker st1 = tracker st
         \<and> output_table st1 = output_table st \<and> job_stats st1 = job_stats st
         \<and> config st1 = config st \<and> job_start_time st1 = job_start_time st
         \<and> output_csv st1 = output_csv st
         \<and> processed_count st1 = processed_count st + length recs"
proof (cases "build_query (config st) (tracker st) True")
  case (Inl e)
  with assms show ?thesis by (auto simp: fetch_phase_def latest_of_Nil)
next
  case (Inr q)
  obtain res st0 where l: "list_messages env st q None = (res, st0)" by fastforce
  note fr = list_messages_frame[OF l]
  show ?thesis
  proof (cases res)
    case (Inl e)
    with assms Inr l fr show ?thesis by (auto simp: fetch_phase_def latest_of_Nil)
  next
    case (Inr ms)
    with assms \<open>build_query (config st) (tracker st) True = Inr q\<close> l
    have "process_messages env ms [] None st0 = (exc, recs, latest, st1)"
      by (simp add: fetch_phase_def)
    from process_messages_props[OF this] fr show ?thesis by auto
  qed
qed

lemma log_job_stats_frame:
  "tracker (snd (log_job_stats env st)) = tracker st
   \<and> output_table (snd (log_job_stats env st)) = output_table st"
  by (simp add: log_job_stats_def Let_def split: option.splits)

lemma init_frame:
  "tracker (init env st) = tracker st \<and> output_table (init env st) = output_table st
   \<and> job_stats (init env st) = job_stats st \<and> config (init env st) = config st
   \<and> output_csv (init env st) = output_csv st \<and> processed_count (init env st) = 0
   \<and> job_start_time (init env st) = start_clock env"
  by (simp add: init_def)

lemma run_tracker:
  assumes "fetch_phase env (init env st) = (exc, recs, latest, st1)"
  shows "tracker (snd (run env st)) =
           (if exc = None \<and> recs \<noteq> [] \<and> table_io env = None \<and> output_table st = None
            then (case latest of None \<Rightarrow> tracker st
                  | Some d \<Rightarrow> TrackerJson (Some (strftime_ymd d)))
            else tracker st)"
  using assms fetch_phase_props[OF assms] init_frame[of env st]
  by (cases exc)
     (auto simp: run_def fetch_and_store_emails_def try_body_def persist_def Let_def
        log_job_stats_frame save_last_timestamp_def split: option.splits)

lemma run_output_table:
  assumes "fetch_phase env (init env st) = (exc, recs, latest, st1)"
  shows "output_table (snd (run env st)) =
           (if exc = None \<and> recs \<noteq> [] \<and> table_io env = None \<and> output_table st = None
            then Some recs else output_table st)"
  using assms fetch_phase_props[OF assms] init_frame[of env st]
  by (cases exc)
     (auto simp: run_def fetch_and_store_emails_def try_body_def persist_def Let_def
        log_job_stats_frame split: option.splits)

lemma run_job_stats:
  "stats_io env = None \<Longrightarrow>
     fst (run env st) = None
     \<and> job_stats (snd (run env st)) =
         Some ((case job_stats st of None \<Rightarrow> [] | Some rows \<Rightarrow> rows)
               @ [stats_row_of env (snd (try_body env (init env st)))])"
proof -
  assume s: "stats_io env = None"
  obtain exc recs latest st1 where f: "fetch_phase env (init env st) = (exc, recs, latest, st1)"
    by (metis prod_cases4)
  have "job_stats (snd (try_body env (init env st))) = job_stats st"
    using f fetch_phase_props[OF f] init_frame[of env st]
    by (cases exc) (auto simp: try_body_def persist_def Let_def split: option.splits)
  with s show ?thesis
    by (simp add: run_def fetch_and_store_emails_def log_job_stats_def Let_def)
qed

lemma fetch_phase_fetched:
  "\<exists>latest st1. fetch_phase env (init env st) = (fetch_error env st, fetched env st, latest, st1)"
  by (cases "fetch_phase env (init env st)") (simp add: fetched_def fetch_error_def)

lemma run_tracker_fetched:
  "tracker (snd (run env st)) =
     (if fetch_error env st = None \<and> fetched env st \<noteq> [] \<and> table_io env = None
         \<and> output_table st = None
      then (case latest_of (fetched env st) None of None \<Rightarrow> tracker st
            | Some d \<Rightarrow> TrackerJson (Some (strftime_ymd d)))
      else tracker st)"
proof -
  from fetch_phase_fetched obtain latest st1 where
    f: "fetch_phase env (init env st) = (fetch_error env st, fetched env st, latest, st1)"
    by blast
  from fetch_phase_props[OF f] have "latest = latest_of (fetched env st) None" by simp
  with run_tracker[OF f] show ?thesis by simp
qed

lemma run_output_table_fetched:
  "output_table (snd (run env st)) =
     (if fetch_error env st = None \<and> fetched env st \<noteq> [] \<and> table_io env = None
         \<and> output_table st = None
      then Some (fetched env st) else output_table st)"
proof -
  from fetch_phase_fetched obtain latest st1 where
    f: "fetch_phase env (init env st) = (fetch_error env st, fetched env st, latest, st1)"
    by blast
  from run_output_table[OF f] show ?thesis .
qed

lemma run_existing_table:
  "output_table st = Some old \<Longrightarrow>
     output_table (snd (run env st)) = Some old \<and> tracker (snd (run env st)) = tracker st"
  by (simp add: run_output_table_fetched run_tracker_fetched)

lemma unparsed_date_first_write:
  assumes "fetch_error env st = None" and "table_io env = None" and "output_table st = None"
    and "r \<in> set (fetched env st)" and "\<not> date_parses r"
  shows "output_table (snd (run env st)) = Some (fetched env st)
         \<and> tracker (snd (run env st))
             = (case latest_of (filter (\<lambda>x. x \<noteq> r) (fetched env st)) None of
                  None \<Rightarrow> tracker st
                | Some d \<Rightarrow> TrackerJson (Some (strftime_ymd d)))"
  using assms
  by (auto simp: run_output_table_fetched run_tracker_fetched latest_of_remove
      split: option.splits)

section \<open>The claims about the ingestion run\<close>

text \<open>
  C2 (as the code has it). After a run the stored cursor is either what it
  was before the run, or the greatest date that parsed among the records the
  run fetched; the run does not compare that date with the cursor it
  replaces, so the cursor can move back. A run in which no record's date
  header parses leaves the stored cursor unchanged.
\<close>

theorem cursor_after_run:
  "(tracker (snd (run env st)) = tracker st
    \<or> (\<exists>d. tracker (snd (run env st)) = TrackerJson (Some (strftime_ymd d))
          \<and> (\<exists>r\<in>set (fetched env st). strptime (take 16 (Date r)) = Inr d)
          \<and> (\<forall>r\<in>set (fetched env st). \<forall>d'.
                strptime (take 16 (Date r)) = Inr d' \<longrightarrow> \<not> date_gt d' d)))
   \<and> ((\<forall>r\<in>set (fetched env st). \<not> date_parses r) \<longrightarrow> tracker (snd (run env st)) = tracker st)"
proof (cases "latest_of (fetched env st) None")
  case None
  then show ?thesis by (simp add: run_tracker_fetched)
next
  case (Some d)
  from latest_of_max[OF Some] have
    m: "\<exists>r\<in>set (fetched env st). strptime (take 16 (Date r)) = Inr d"
       "\<forall>r\<in>set (fetched env st). \<forall>d'. strptime (take 16 (Date r)) = Inr d' \<longrightarrow> \<not> date_gt d' d"
    by auto
  from m(1) have "\<not> (\<forall>r\<in>set (fetched env st). \<not> date_parses r)"
    by (force simp: date_parses_def)
  with m Some show ?thesis
    by (auto simp: run_tracker_fetched)
qed

theorem cursor_after_run_witness:
  "fetched (ex_env (Inr [''m3'', ''m9'']) mailbox)
     (ex_state bare_config (TrackerJson (Some ''2024/10/15'')) None)
     = [mail_record ''short'' ''Thu, 3 Oct 2024 10:00:00 +0000'', empty_record]
   \<and> \<not> date_parses (mail_record ''short'' ''Thu, 3 Oct 2024 10:00:00 +0000'')
   \<and> \<not> date_parses empty_record
   \<and> tracker (snd (run (ex_env (Inr [''m3'', ''m9'']) mailbox)
        (ex_state bare_config (TrackerJson (Some ''2024/10/15'')) None)))
     = TrackerJson (Some ''2024/10/15'')"
proof -
  let ?env = "ex_env (Inr [''m3'', ''m9'']) mailbox"
  let ?st = "ex_state bare_config (TrackerJson (Some ''2024/10/15'')) None"
  have f: "fetched ?env ?st
           = [mail_record ''short'' ''Thu, 3 Oct 2024 10:00:00 +0000'', empty_record]"
    by code_simp
  have p: "\<not> date_parses (mail_record ''short'' ''Thu, 3 Oct 2024 10:00:00 +0000'')"
          "\<not> date_parses empty_record"
    by code_simp+
  have t: "tracker ?st = TrackerJson (Some ''2024/10/15'')"
    by (simp add: ex_state_def)
  from cursor_after_run[of ?env ?st] f p t show ?thesis
    by simp
qed

theorem cursor_decreases_counterexample:
  "tracker (snd (run (ex_env (Inr []) mailbox)
      (ex_state bare_config (TrackerJson (Some ''2024/10/15'')) None)))
     = TrackerJson (Some (strftime_ymd \<lparr>year = 2024, month = 10, day = 15\<rparr>))
   \<and> tracker (snd (run (ex_env (Inr [''m2'']) mailbox)
        (snd (run (ex_env (Inr []) mailbox)
           (ex_state bare_config (TrackerJson (Some ''2024/10/15'')) None)))))
     = TrackerJson (Some (strftime_ymd \<lparr>year = 2024, month = 1, day = 1\<rparr>))
   \<and> date_gt \<lparr>year = 2024, month = 10, day = 15\<rparr> \<lparr>year = 2024, month = 1, day = 1\<rparr>"
  by code_simp

text \<open>
  C3 (as the code has it). When the full-content request for a listed
  identifier fails, the loop counts one error, appends a record whose fields
  are all empty, counts the message as processed, leaves the tracked date as
  it is, and goes on with the remaining identifiers: the failure does not end
  the loop.
\<close>

theorem failed_fetch_keeps_empty_record:
  assumes "api_get env msg_id = Inl e"
  shows "process_messages env (msg_id # rest) records latest st =
           process_messages env rest (records @ [empty_record]) latest
             (st\<lparr>error_count := error_count st + 1,
                 processed_count := processed_count st + 1\<rparr>)"
  using assms
  by (simp add: get_message_detail_def extract_metadata_empty track_date_empty_record)

theorem failed_fetch_keeps_empty_record_witness:
  "fst (process_messages (ex_env (Inr [''m9'', ''m1'']) mailbox) [''m9'', ''m1''] [] None
          (ex_state bare_config NoFile None)) = None
   \<and> fst (snd (process_messages (ex_env (Inr [''m9'', ''m1'']) mailbox) [''m9'', ''m1''] [] None
          (ex_state bare_config NoFile None)))
      = [empty_record, mail_record ''new'' ''Tue, 15 Oct 2024 09:30:00 +0000'']"
proof -
  let ?env = "ex_env (Inr [''m9'', ''m1'']) mailbox"
  let ?st = "ex_state bare_config NoFile None"
  have h: "api_get ?env ''m9'' = Inl HttpError"
    by (simp add: ex_env_def mailbox_def)
  have r: "fst (process_messages ?env [''m1''] ([] @ [empty_record]) None
             (?st\<lparr>error_count := error_count ?st + 1,
                   processed_count := processed_count ?st + 1\<rparr>)) = None"
     "fst (snd (process_messages ?env [''m1''] ([] @ [empty_record]) None
             (?st\<lparr>error_count := error_count ?st + 1,
                   processed_count := processed_count ?st + 1\<rparr>)))
        = [empty_record, mail_record ''new'' ''Tue, 15 Oct 2024 09:30:00 +0000'']"
    by code_simp+
  from failed_fetch_keeps_empty_record[OF h, of "[''m1'']" "[]" None ?st] r
  show ?thesis by simp
qed

theorem failed_fetch_record_counterexample:
  "output_table (snd (run (ex_env (Inr [''m9'']) mailbox) (ex_state bare_config NoFile None)))
     = Some [empty_record]
   \<and> api_get (ex_env (Inr [''m9'']) mailbox) ''m9'' = Inl HttpError"
  by code_simp

text \<open>
  C6 (the code at the failing input). The second of two runs finds the output
  file of the first: line 274 raises \<open>TypeError\<close>, the outer handler swallows it,
  and nothing is written. After a first run that fetched \<open>m1\<close> and a second
  that fetched \<open>m1\<close> and \<open>m2\<close> the table still holds the one row of the first
  run, so the new row of \<open>m2\<close> is lost; and after a first run that wrote the
  same row twice (two fetches that failed) the table of both runs holds that
  row twice.
\<close>

theorem second_run_writes_nothing:
  "fetched (ex_env (Inr [''m1'', ''m2'']) mailbox)
     (snd (run (ex_env (Inr [''m1'']) mailbox) (ex_state bare_config NoFile None)))
     = [mail_record ''new'' ''Tue, 15 Oct 2024 09:30:00 +0000'',
        mail_record ''old'' ''Mon, 01 Jan 2024 10:00:00 +0000'']
   \<and> fst (try_body (ex_env (Inr [''m1'', ''m2'']) mailbox)
        (init (ex_env (Inr [''m1'', ''m2'']) mailbox)
           (snd (run (ex_env (Inr [''m1'']) mailbox) (ex_state bare_config NoFile None)))))
     = Some TypeError
   \<and> output_table (snd (run (ex_env (Inr [''m1'', ''m2'']) mailbox)
        (snd (run (ex_env (Inr [''m1'']) mailbox) (ex_state bare_config NoFile None)))))
     = Some [mail_record ''new'' ''Tue, 15 Oct 2024 09:30:00 +0000'']
   \<and> fetched (ex_env (Inr [''m9'']) mailbox)
        (snd (run (ex_env (Inr [''m8'', ''m9'']) mailbox) (ex_state bare_config NoFile None)))
     = [empty_record]
   \<and> output_table (snd (run (ex_env (Inr [''m9'']) mailbox)
        (snd (run (ex_env (Inr [''m8'', ''m9'']) mailbox) (ex_state bare_config NoFile None)))))
     = Some [empty_record, empty_record]
   \<and> count_list [empty_record, empty_record] empty_record = 2"
  by code_simp

text \<open>
  C7. A run whose listing yields no message leaves the output table and the
  cursor file as they were, and, when the statistics workbook can be written,
  returns normally having appended exactly one statistics row, whose
  \<open>Emails_Processed\<close> is 0.
\<close>

theorem zero_messages_run:
  assumes "build_query (config st) (tracker st) True = Inr q"
    and "fst (list_messages env (init env st) q None) = Inr []"
    and "stats_io env = None"
  shows "fst (run env st) = None
         \<and> output_table (snd (run env st)) = output_table st
         \<and> tracker (snd (run env st)) = tracker st
         \<and> (\<exists>row. job_stats (snd (run env st)) =
                     Some ((case job_stats st of None \<Rightarrow> [] | Some rows \<Rightarrow> rows) @ [row])
                  \<and> Emails_Processed row = 0)"
proof -
  obtain st1 where l: "list_messages env (init env st) q None = (Inr [], st1)"
    using assms(2) by (cases "list_messages env (init env st) q None") auto
  from assms(1) l have f: "fetch_phase env (init env st) = (None, [], None, st1)"
    by (simp add: fetch_phase_def init_def)
  then have fe: "fetched env st = []" by (simp add: fetched_def)
  from f list_messages_frame[OF l]
  have "processed_count (snd (try_body env (init env st))) = 0"
    by (simp add: try_body_def persist_def init_def)
  then have "Emails_Processed (stats_row_of env (snd (try_body env (init env st)))) = 0"
    by (simp add: stats_row_of_def)
  with run_job_stats[OF assms(3), of st] fe show ?thesis
    by (auto simp: run_tracker_fetched run_output_table_fetched)
qed

theorem zero_messages_run_witness:
  "fst (run (ex_env (Inr []) mailbox)
          (ex_state bare_config (TrackerJson (Some ''2024/10/15'')) (Some [empty_record]))) = None
   \<and> output_table (snd (run (ex_env (Inr []) mailbox)
          (ex_state bare_config (TrackerJson (Some ''2024/10/15'')) (Some [empty_record]))))
      = Some [empty_record]
   \<and> tracker (snd (run (ex_env (Inr []) mailbox)
          (ex_state bare_config (TrackerJson (Some ''2024/10/15'')) (Some [empty_record]))))
      = TrackerJson (Some ''2024/10/15'')
   \<and> (\<exists>row. job_stats (snd (run (ex_env (Inr []) mailbox)
          (ex_state bare_config (TrackerJson (Some ''2024/10/15'')) (Some [empty_record]))))
           = Some [row] \<and> Emails_Processed row = 0)"
proof -
  let ?env = "ex_env (Inr []) mailbox"
  let ?st = "ex_state bare_config (TrackerJson (Some ''2024/10/15'')) (Some [empty_record])"
  have h1: "build_query (config ?st) (tracker ?st) True = Inr ''after:2024/10/15''"
    by code_simp
  have h2: "fst (list_messages ?env (init ?env ?st) ''after:2024/10/15'' None) = Inr []"
    by code_simp
  have h3: "stats_io ?env = None" by (simp add: ex_env_def)
  from zero_messages_run[OF h1 h2 h3] show ?thesis
    by (simp add: ex_state_def)
qed

text \<open>
  C8 (the code at the failing input). A run onto an existing output file
  fetches one message whose date header does not parse; line 274 raises
  \<open>TypeError\<close> and the record is not in the table after the run.
\<close>

theorem unparsed_record_not_written:
  "fetch_error (ex_env (Inr [''m3'']) mailbox)
     (ex_state bare_config NoFile
        (Some [mail_record ''new'' ''Tue, 15 Oct 2024 09:30:00 +0000''])) = None
   \<and> fetched (ex_env (Inr [''m3'']) mailbox)
        (ex_state bare_config NoFile
           (Some [mail_record ''new'' ''Tue, 15 Oct 2024 09:30:00 +0000'']))
     = [mail_record ''short'' ''Thu, 3 Oct 2024 10:00:00 +0000'']
   \<and> \<not> date_parses (mail_record ''short'' ''Thu, 3 Oct 2024 10:00:00 +0000'')
   \<and> fst (try_body (ex_env (Inr [''m3'']) mailbox)
        (init (ex_env (Inr [''m3'']) mailbox)
           (ex_state bare_config NoFile
              (Some [mail_record ''new'' ''Tue, 15 Oct 2024 09:30:00 +0000'']))))
     = Some TypeError
   \<and> output_table (snd (run (ex_env (Inr [''m3'']) mailbox)
        (ex_state bare_config NoFile
           (Some [mail_record ''new'' ''Tue, 15 Oct 2024 09:30:00 +0000'']))))
     = Some [mail_record ''new'' ''Tue, 15 Oct 2024 09:30:00 +0000'']"
  by code_simp

text \<open>
  C9. Whatever query building, listing, fetching, extraction, date tracking
  or persistence raise, the run returns without an exception and has appended
  one statistics row, provided the statistics step itself can write its
  workbook.
\<close>

theorem run_returns_normally:
  assumes "stats_io env = None"
  shows "fst (run env st) = None
         \<and> job_stats (snd (run env st)) =
             Some ((case job_stats st of None \<Rightarrow> [] | Some rows \<Rightarrow> rows)
                   @ [stats_row_of env (snd (try_body env (init env st)))])"
  using assms by (rule run_job_stats)

theorem run_returns_normally_witness:
  "fst (try_body (ex_env (Inr [''m1'']) mailbox)
          (init (ex_env (Inr [''m1'']) mailbox) (ex_state Map.empty NoFile None)))
     = Some KeyError
   \<and> fst (run (ex_env (Inr [''m1'']) mailbox) (ex_state Map.empty NoFile None)) = None
   \<and> job_stats (snd (run (ex_env (Inr [''m1'']) mailbox) (ex_state Map.empty NoFile None)))
     = Some [\<lparr>Job_Name = ''Gmail_Email_Ingestion'', Start_Time = 100, End_Time = 160,
              Duration = 60, Emails_Processed = 0, Errors_Encountered = 0,
              Output_File = ''data/emails.csv'', Status = ''Completed''\<rparr>]"
proof -
  let ?env = "ex_env (Inr [''m1'']) mailbox"
  let ?st = "ex_state Map.empty NoFile None"
  have h: "stats_io ?env = None" by (simp add: ex_env_def)
  have b: "fst (try_body ?env (init ?env ?st)) = Some KeyError" by code_simp
  have r: "stats_row_of ?env (snd (try_body ?env (init ?env ?st)))
           = \<lparr>Job_Name = ''Gmail_Email_Ingestion'', Start_Time = 100, End_Time = 160,
              Duration = 60, Emails_Processed = 0, Errors_Encountered = 0,
              Output_File = ''data/emails.csv'', Status = ''Completed''\<rparr>"
    by code_simp
  have j: "job_stats ?st = None" by (simp add: ex_state_def)
  from run_returns_normally[OF h, of ?st] b r j show ?thesis by simp
qed

text \<open>
  C10 (as the code has it). The 16-character prefix of a date header in the
  compact layout, whose day of the month is written as one character, does
  not parse: it reaches one character past the year. A run all of whose
  records carry such headers leaves the cursor unchanged. (A one-digit day
  written in two characters, with a zero or a blank before it, parses.)
\<close>

theorem single_digit_day_not_tracked:
  "(single_digit_day h \<longrightarrow> strptime (take 16 h) = Inl ValueError)
   \<and> ((\<forall>r\<in>set (fetched env st). single_digit_day (Date r))
        \<longrightarrow> tracker (snd (run env st)) = tracker st)"
proof -
  have "latest_of (fetched env st) None = None"
    if "\<forall>r\<in>set (fetched env st). single_digit_day (Date r)"
    using that by (intro latest_of_unparsed) (auto simp: date_parses_def single_digit_day_fails)
  then show ?thesis
    by (auto simp: single_digit_day_fails run_tracker_fetched)
qed

theorem single_digit_day_not_tracked_witness:
  "single_digit_day ''Thu, 3 Oct 2024 10:00:00 +0000''
   \<and> strptime (take 16 ''Thu, 3 Oct 2024 10:00:00 +0000'') = Inl ValueError
   \<and> fetched (ex_env (Inr [''m3'']) mailbox)
        (ex_state bare_config (TrackerJson (Some ''2024/09/01'')) None)
      = [mail_record ''short'' ''Thu, 3 Oct 2024 10:00:00 +0000'']
   \<and> tracker (snd (run (ex_env (Inr [''m3'']) mailbox)
        (ex_state bare_config (TrackerJson (Some ''2024/09/01'')) None)))
      = TrackerJson (Some ''2024/09/01'')"
proof -
  let ?env = "ex_env (Inr [''m3'']) mailbox"
  let ?st = "ex_state bare_config (TrackerJson (Some ''2024/09/01'')) None"
  let ?h = "''Thu, 3 Oct 2024 10:00:00 +0000''"
  have s: "single_digit_day ?h" by code_simp
  have f: "fetched ?env ?st = [mail_record ''short'' ?h]" by code_simp
  have d: "Date (mail_record ''short'' ?h) = ?h" by (simp add: mail_record_def)
  have t: "tracker ?st = TrackerJson (Some ''2024/09/01'')" by (simp add: ex_state_def)
  from single_digit_day_not_tracked[of ?h ?env ?st] s f d t show ?thesis
    by simp
qed

theorem padded_day_parses_counterexample:
  "strptime (take 16 ''Thu,  3 Oct 2024 10:00:00 +0000'')
     = Inr \<lparr>year = 2024, month = 10, day = 3\<rparr>
   \<and> fetched (ex_env (Inr [''m4'']) mailbox)
        (ex_state bare_config (TrackerJson (Some ''2024/09/01'')) None)
      = [mail_record ''padded'' ''Thu,  3 Oct 2024 10:00:00 +0000'']
   \<and> tracker (snd (run (ex_env (Inr [''m4'']) mailbox)
        (ex_state bare_config (TrackerJson (Some ''2024/09/01'')) None)))
      = TrackerJson (Some ''2024/10/03'')"
  by code_simp

end
